theory Spec2Isabelle
  imports Main "HOL-Library.Word" "HOL-Library.Signed_Division"
begin

unbundle bit_operations_syntax

section \<open>The BMP280 driver object (bmp280.h)\<close>

text \<open>
  The fixed-width integers of the class are machine words.  A word carries no sign:
  a signed field (\<open>int16_t\<close>, \<open>int32_t\<close>, \<open>int64_t\<close>) is read with \<open>sint\<close>,
  widened with \<open>scast\<close> and shifted right with \<open>signed_drop_bit\<close>; an unsigned one
  (\<open>uint8_t\<close>, \<open>uint16_t\<close>, \<open>uint32_t\<close>) is read with \<open>unat\<close> and widened with
  \<open>ucast\<close>.  Arithmetic wraps around, as the two's-complement target does.
\<close>

type_synonym u8 = "8 word"
type_synonym u16 = "16 word"
type_synonym s16 = "16 word"
type_synonym u32 = "32 word"
type_synonym s32 = "32 word"
type_synonym s64 = "64 word"

record BMP280 =
  T1 :: u16
  T2 :: s16
  T3 :: s16
  P1 :: u16
  P2 :: s16
  P3 :: s16
  P4 :: s16
  P5 :: s16
  P6 :: s16
  P7 :: s16
  P8 :: s16
  P9 :: s16
  D :: s16
  Error :: u8
  RawTemp :: s32
  FineTemp :: s32
  Temperature :: s16
  RawPress :: s32
  Pressure :: u32

text \<open>\<open>DefaultCalib\<close>: the thirteen assignments of the host build.\<close>

definition DefaultCalib :: "BMP280 \<Rightarrow> BMP280" where
  "DefaultCalib s =
     s\<lparr>T1 := 27504, T2 := 26435, T3 := - 1000,
       P1 := 36477, P2 := - 10685, P3 := 3024,
       P4 := 2855, P5 := 140, P6 := - 7,
       P7 := 15500, P8 := - 14600, P9 := 6000,
       D := 0\<rparr>"

section \<open>Compensation\<close>

subsection \<open>\<open>CalcTemperature\<close>\<close>

definition CalcTemperature_var1 :: "BMP280 \<Rightarrow> s32" where
  "CalcTemperature_var1 s =
     signed_drop_bit 11
       ((signed_drop_bit 3 (RawTemp s) - push_bit 1 (ucast (T1 s))) * scast (T2 s))"

definition CalcTemperature_var2 :: "BMP280 \<Rightarrow> s32" where
  "CalcTemperature_var2 s =
     signed_drop_bit 14
       (signed_drop_bit 12
          ((signed_drop_bit 4 (RawTemp s) - ucast (T1 s)) *
           (signed_drop_bit 4 (RawTemp s) - ucast (T1 s)))
        * scast (T3 s))"

definition CalcTemperature :: "BMP280 \<Rightarrow> BMP280" where
  "CalcTemperature s =
     (let var1 = CalcTemperature_var1 s;
          var2 = CalcTemperature_var2 s
      in s\<lparr>FineTemp := var1 + var2,
           Temperature := ucast (signed_drop_bit 9 ((var1 + var2) + 256))\<rparr>)"

subsection \<open>The reference formula for the default calibration\<close>

text \<open>
  The 32-bit fixed-point formula as the specification words it, with the default
  constants \<open>T1 = 27504\<close>, \<open>T2 = 26435\<close>, \<open>T3 = -1000\<close> written in:
  \<open>var1 = (((RawTemp>>3) - (T1<<1)) * T2) >> 11\<close>,
  \<open>var2 = ((((RawTemp>>4) - T1) * ((RawTemp>>4) - T1)) >> 12) * T3 >> 14\<close>,
  \<open>FineTemp = var1 + var2\<close>, \<open>Temperature = (FineTemp + 256) >> 9\<close>.
\<close>

definition ref_var1 :: "s32 \<Rightarrow> s32" where
  "ref_var1 adc = signed_drop_bit 11 ((signed_drop_bit 3 adc - push_bit 1 27504) * 26435)"

definition ref_var2 :: "s32 \<Rightarrow> s32" where
  "ref_var2 adc =
     signed_drop_bit 14
       (signed_drop_bit 12 ((signed_drop_bit 4 adc - 27504) * (signed_drop_bit 4 adc - 27504))
        * (- 1000))"

definition ref_fine :: "s32 \<Rightarrow> s32" where
  "ref_fine adc = ref_var1 adc + ref_var2 adc"

definition ref_temperature :: "s32 \<Rightarrow> s32" where
  "ref_temperature adc = signed_drop_bit 9 (ref_fine adc + 256)"

subsection \<open>\<open>CalcPressure\<close>\<close>

text \<open>
  The only partial operation of the compensation code is the 64-bit division of line 139.
  It is modelled as a fallible step that keeps a log of the divisors it has divided by.
  A zero divisor is the error \<open>DivideByZero\<close>.  \<open>INT64_MIN\<close> divided by \<open>-1\<close>, whose
  quotient does not fit 64 bits, is the error \<open>Overflow\<close>: the division is undefined
  there and traps.  Any other division appends its divisor to the log and gives the
  quotient truncated towards zero, as C does.
\<close>

datatype error = DivideByZero | Overflow

definition INT64_MIN :: s64 where
  "INT64_MIN = - 9223372036854775808"

definition div_s64 :: "s64 \<Rightarrow> s64 \<Rightarrow> s64 list \<Rightarrow> error + (s64 \<times> s64 list)" where
  "div_s64 a b divs =
     (if b = 0 then Inl DivideByZero
      else if a = INT64_MIN \<and> b = - 1 then Inl Overflow
      else Inr (word_of_int (sint a sdiv sint b), divs @ [b]))"

text \<open>The value of \<open>var1\<close> and \<open>var2\<close> when the test \<open>var1 == 0\<close> is reached.\<close>

definition CalcPressure_var1 :: "BMP280 \<Rightarrow> s64" where
  "CalcPressure_var1 s =
     (let var1 = scast (FineTemp s) - 128000;
          var1 = signed_drop_bit 8 (var1 * var1 * scast (P3 s)) + push_bit 12 (var1 * scast (P2 s))
      in signed_drop_bit 33 ((push_bit 47 1 + var1) * ucast (P1 s)))"

definition CalcPressure_var2 :: "BMP280 \<Rightarrow> s64" where
  "CalcPressure_var2 s =
     (let var1 = scast (FineTemp s) - 128000;
          var2 = var1 * var1 * scast (P6 s);
          var2 = var2 + push_bit 17 (var1 * scast (P5 s))
      in var2 + push_bit 35 (scast (P4 s)))"

text \<open>The dividend of line 139: \<open>1048576-RawPress\<close> is 32-bit arithmetic, widened after.\<close>

definition CalcPressure_dividend :: "BMP280 \<Rightarrow> s64" where
  "CalcPressure_dividend s =
     (let p = scast ((1048576 :: s32) - RawPress s)
      in (push_bit 31 p - CalcPressure_var2 s) * 3125)"

text \<open>Lines 140 to 143: from the quotient \<open>p\<close> to the value stored in \<open>Pressure\<close>.\<close>

definition CalcPressure_result :: "BMP280 \<Rightarrow> s64 \<Rightarrow> u32" where
  "CalcPressure_result s p =
     (let var1 = signed_drop_bit 25 (scast (P9 s) * signed_drop_bit 13 p * signed_drop_bit 13 p);
          var2 = signed_drop_bit 19 (scast (P8 s) * p);
          p = signed_drop_bit 8 (p + var1 + var2) + push_bit 4 (scast (P7 s))
      in ucast (signed_drop_bit 6 (p + 32)))"

text \<open>
  \<open>CalcPressure\<close> starts with an empty log and returns the log its divisions have
  written next to the new state; \<open>Inl\<close> is a division that trapped.
\<close>

definition CalcPressure :: "BMP280 \<Rightarrow> error + (s64 list \<times> BMP280)" where
  "CalcPressure s =
     (let var1 = CalcPressure_var1 s
      in if var1 = 0 then Inr ([], s\<lparr>Pressure := 0\<rparr>)
         else
           (case div_s64 (CalcPressure_dividend s) var1 [] of
              Inl e \<Rightarrow> Inl e
            | Inr (p, divs) \<Rightarrow> Inr (divs, s\<lparr>Pressure := CalcPressure_result s p\<rparr>)))"

text \<open>The caller's sequence \<open>CalcTemperature(); CalcPressure();\<close>.\<close>

definition Calc :: "BMP280 \<Rightarrow> error + BMP280" where
  "Calc s =
     (case CalcPressure (CalcTemperature s) of
        Inl e \<Rightarrow> Inl e
      | Inr (ds, s') \<Rightarrow> Inr s')"

section \<open>Acquisition over the I2C bus\<close>

subsection \<open>The bus transport\<close>

text \<open>
  What the driver does on the bus is recorded as a trace of events: a sleep of so many
  ticks, a register read of so many bytes, a register write of one byte.
\<close>

datatype event =
  Delay nat
| BusRead u8 u8 nat
| BusWrite u8 u8 u8

text \<open>
  The device and the wire are an oracle: the \<open>n\<close>-th transaction on the bus is
  answered by \<open>bus n\<close>, an error code (0 = no error) and the bytes that reach the
  buffer of a read, in bus order.  Every theorem below holds for every oracle.
\<close>

type_synonym reply = "u8 \<times> u8 list"
type_synonym bus = "nat \<Rightarrow> reply"

record io =
  count :: nat
  trace :: "event list"

definition ADDR :: u8 where "ADDR = 0x77"
definition REG_STATUS :: u8 where "REG_STATUS = 0xF3"
definition REG_CTRL :: u8 where "REG_CTRL = 0xF4"
definition REG_CONFIG :: u8 where "REG_CONFIG = 0xF5"
definition REG_PRESS :: u8 where "REG_PRESS = 0xF7"
definition REG_TEMP :: u8 where "REG_TEMP = 0xFA"

text \<open>
  Modelled from the spec: \<open>I2C_Read\<close> and \<open>I2C_Write\<close> (declared in i2c.h) and
  \<open>vTaskDelay\<close> (of the RTOS) are called by the driver but are not among its sources.
  The spec gives the transport as \<open>Read(deviceAddress, register, buffer, length) -> Error\<close>,
  \<open>Write(deviceAddress, register, byte) -> Error\<close> and a sleep primitive, and says
  nothing of what a failed read leaves in the buffer.  A read that returns 0 has filled
  the buffer with \<open>len\<close> bytes (0 for a byte the reply does not list); a read that
  returns an error code has stored the bytes its reply lists, at most \<open>len\<close> of them and
  possibly none.
\<close>

definition I2C_Read :: "bus \<Rightarrow> u8 \<Rightarrow> u8 \<Rightarrow> nat \<Rightarrow> io \<Rightarrow> u8 \<times> u8 list \<times> io" where
  "I2C_Read bus addr reg len w =
     (case bus (count w) of
        (e, d) \<Rightarrow>
          (e, (if e = 0 then take len (d @ replicate len 0) else take len d),
           w\<lparr>count := Suc (count w), trace := trace w @ [BusRead addr reg len]\<rparr>))"

definition I2C_Write :: "bus \<Rightarrow> u8 \<Rightarrow> u8 \<Rightarrow> u8 \<Rightarrow> io \<Rightarrow> u8 \<times> io" where
  "I2C_Write bus addr reg val w =
     (fst (bus (count w)),
      w\<lparr>count := Suc (count w), trace := trace w @ [BusWrite addr reg val]\<rparr>)"

definition vTaskDelay :: "nat \<Rightarrow> io \<Rightarrow> io" where
  "vTaskDelay n w = w\<lparr>trace := trace w @ [Delay n]\<rparr>"

text \<open>
  The raw-sample readers pass the address of a 32-bit field as the byte buffer.  The
  target is little-endian: byte \<open>i\<close> of the buffer is bits \<open>8 i .. 8 i + 7\<close> of the field.
\<close>

definition store_byte :: "s32 \<Rightarrow> nat \<Rightarrow> u8 \<Rightarrow> s32" where
  "store_byte x i b = (x AND NOT (push_bit (8 * i) 0xFF)) OR push_bit (8 * i) (ucast b)"

fun store_bytes :: "s32 \<Rightarrow> nat \<Rightarrow> u8 list \<Rightarrow> s32" where
  "store_bytes x i [] = x"
| "store_bytes x i (b # bs) = store_bytes (store_byte x i b) (Suc i) bs"

subsection \<open>The driver's bus operations\<close>

text \<open>Each operation returns its \<open>uint8_t\<close> result, the driver object and the bus state.\<close>

definition ReadBusy :: "bus \<Rightarrow> BMP280 \<Rightarrow> io \<Rightarrow> u8 \<times> BMP280 \<times> io" where
  "ReadBusy bus s w =
     (case I2C_Read bus ADDR REG_STATUS 1 w of
        (e, d, w1) \<Rightarrow>
          (let Status = (case d of [] \<Rightarrow> 0 | b # _ \<Rightarrow> b);
               s1 = s\<lparr>Error := e\<rparr>
           in if e \<noteq> 0 then (e, s1, w1)
              else (of_bool (Status AND 0x09 = 0), s1, w1)))"

function WaitReady_loop :: "bus \<Rightarrow> u8 \<Rightarrow> BMP280 \<Rightarrow> io \<Rightarrow> u8 \<times> BMP280 \<times> io" where
  "WaitReady_loop bus Timeout s w =
     (if Timeout = 0 then (0xFF, s, w)
      else
        (case ReadBusy bus s w of
           (Err, s1, w1) \<Rightarrow>
             if 1 < Err then (Err, s1, w1)
             else if Err = 0 then (0, s1, w1)
             else WaitReady_loop bus (Timeout - 1) s1 (vTaskDelay 1 w1)))"
  by pat_completeness auto
termination
  by (relation "measure (\<lambda>(bus, Timeout, s, w). unat Timeout)")
     (auto simp: unat_minus_one word_neq_0_conv unat_gt_0)

declare WaitReady_loop.simps [simp del]

definition WaitReady :: "bus \<Rightarrow> u8 \<Rightarrow> u8 \<Rightarrow> BMP280 \<Rightarrow> io \<Rightarrow> u8 \<times> BMP280 \<times> io" where
  "WaitReady bus Timeout Wait s w = WaitReady_loop bus Timeout s (vTaskDelay (unat Wait) w)"

text \<open>The call \<open>WaitReady()\<close> with the default arguments of the declaration.\<close>

definition WaitReady_default :: "bus \<Rightarrow> BMP280 \<Rightarrow> io \<Rightarrow> u8 \<times> BMP280 \<times> io" where
  "WaitReady_default bus s w = WaitReady bus 20 30 s w"

definition Trigger :: "bus \<Rightarrow> BMP280 \<Rightarrow> io \<Rightarrow> u8 \<times> BMP280 \<times> io" where
  "Trigger bus s w =
     (case I2C_Write bus ADDR REG_CONFIG 0x00 w of
        (e1, w1) \<Rightarrow>
          (let s1 = s\<lparr>Error := e1\<rparr>
           in if e1 \<noteq> 0 then (e1, s1, w1)
              else
                (case I2C_Write bus ADDR REG_CTRL 0x55 w1 of
                   (e2, w2) \<Rightarrow> (e2, s1\<lparr>Error := e2\<rparr>, w2))))"

text \<open>The byte swap and the shift of both raw-sample readers.\<close>

definition swap_shift :: "s32 \<Rightarrow> s32" where
  "swap_shift r =
     signed_drop_bit 4
       ((push_bit 16 r AND 0xFF0000) OR (r AND 0x00FF00) OR (signed_drop_bit 16 r AND 0x0000FF))"

definition ReadRawPress :: "bus \<Rightarrow> BMP280 \<Rightarrow> io \<Rightarrow> u8 \<times> BMP280 \<times> io" where
  "ReadRawPress bus s w =
     (let s0 = s\<lparr>RawPress := 0\<rparr>
      in case I2C_Read bus ADDR REG_PRESS 3 w of
           (e, d, w1) \<Rightarrow>
             (let s1 = s0\<lparr>RawPress := store_bytes (RawPress s0) 0 d, Error := e\<rparr>
              in if e \<noteq> 0 then (e, s1, w1)
                 else (0, s1\<lparr>RawPress := swap_shift (RawPress s1)\<rparr>, w1)))"

definition ReadRawTemp :: "bus \<Rightarrow> BMP280 \<Rightarrow> io \<Rightarrow> u8 \<times> BMP280 \<times> io" where
  "ReadRawTemp bus s w =
     (let s0 = s\<lparr>RawTemp := 0\<rparr>
      in case I2C_Read bus ADDR REG_TEMP 3 w of
           (e, d, w1) \<Rightarrow>
             (let s1 = s0\<lparr>RawTemp := store_bytes (RawTemp s0) 0 d, Error := e\<rparr>
              in if e \<noteq> 0 then (e, s1, w1)
                 else (0, s1\<lparr>RawTemp := swap_shift (RawTemp s1)\<rparr>, w1)))"

subsection \<open>Auxiliary notions for the bus operations\<close>

text \<open>
  The status byte a one-byte read leaves in \<open>Status\<close>, the value \<open>ReadBusy\<close> returns
  on a reply (the error code when there is one, else the truth value of
  \<open>(Status&0x09)==0\<close>), and the trace of \<open>n\<close> rounds of the polling loop.
\<close>

definition Status_of :: "u8 list \<Rightarrow> u8" where
  "Status_of d = (case take 1 (d @ replicate 1 0) of [] \<Rightarrow> 0 | b # _ \<Rightarrow> b)"

definition poll_result :: "reply \<Rightarrow> u8" where
  "poll_result r = (if fst r \<noteq> 0 then fst r else of_bool (Status_of (snd r) AND 0x09 = 0))"

definition polled :: "nat \<Rightarrow> event list" where
  "polled n = concat (replicate n [BusRead ADDR REG_STATUS 1, Delay 1])"

text \<open>
  The 24-bit big-endian value of a burst as the specification words it:
  \<open>(b0<<16) | (b1<<8) | b2\<close>.
\<close>

definition be24 :: "u8 \<Rightarrow> u8 \<Rightarrow> u8 \<Rightarrow> s32" where
  "be24 b0 b1 b2 = push_bit 16 (ucast b0) OR push_bit 8 (ucast b1) OR ucast b2"

subsection \<open>Concrete inputs for the worked examples\<close>

text \<open>An object with every field zero, a bus that gives every transaction the same reply,
  and a fresh bus state.\<close>

definition zeroed :: BMP280 where
  "zeroed =
     \<lparr>T1 = 0, T2 = 0, T3 = 0, P1 = 0, P2 = 0, P3 = 0, P4 = 0, P5 = 0, P6 = 0,
      P7 = 0, P8 = 0, P9 = 0, D = 0, Error = 0, RawTemp = 0, FineTemp = 0,
      Temperature = 0, RawPress = 0, Pressure = 0\<rparr>"

definition steady :: "reply \<Rightarrow> bus" where
  "steady r n = r"

definition io0 :: io where
  "io0 = \<lparr>count = 0, trace = []\<rparr>"

text \<open>A bus that answers \<open>r\<close> to its first \<open>k\<close> transactions and fails with code \<open>e\<close> from then on.\<close>

definition fail_from :: "nat \<Rightarrow> u8 \<Rightarrow> reply \<Rightarrow> bus" where
  "fail_from k e r n = (if n < k then r else (e, []))"

section \<open>The pressure formula and its division\<close>

lemma CalcPressure_zero:
  "CalcPressure_var1 s = 0 \<Longrightarrow> CalcPressure s = Inr ([], s\<lparr>Pressure := 0\<rparr>)"
  by (simp add: CalcPressure_def)

lemma CalcPressure_overflow:
  "CalcPressure_var1 s = - 1 \<Longrightarrow> CalcPressure_dividend s = INT64_MIN \<Longrightarrow>
   CalcPressure s = Inl Overflow"
  by (simp add: CalcPressure_def div_s64_def)

lemma CalcPressure_nonzero:
  assumes "CalcPressure_var1 s \<noteq> 0"
    and "\<not> (CalcPressure_dividend s = INT64_MIN \<and> CalcPressure_var1 s = - 1)"
  shows "CalcPressure s =
           Inr ([CalcPressure_var1 s],
                s\<lparr>Pressure := CalcPressure_result s
                   (word_of_int (sint (CalcPressure_dividend s) sdiv sint (CalcPressure_var1 s)))\<rparr>)"
  using assms by (auto simp add: CalcPressure_def div_s64_def Let_def)

lemma CalcPressure_not_DivideByZero: "CalcPressure s \<noteq> Inl DivideByZero"
proof (cases "CalcPressure_var1 s = 0")
  case True
  then show ?thesis
    by (simp only: CalcPressure_zero sum.distinct not_False_eq_True)
next
  case nz: False
  show ?thesis
  proof (cases "CalcPressure_dividend s = INT64_MIN \<and> CalcPressure_var1 s = - 1")
    case True
    then have "CalcPressure s = Inl Overflow"
      by (simp add: CalcPressure_overflow)
    then show ?thesis
      by simp
  next
    case False
    with nz show ?thesis
      by (simp only: CalcPressure_nonzero sum.distinct not_False_eq_True)
  qed
qed

lemma CalcPressure_Inr:
  assumes "CalcPressure s = Inr (ds, s')"
  shows "\<exists>p. s' = s\<lparr>Pressure := p\<rparr>"
proof (cases "CalcPressure_var1 s = 0")
  case True
  with assms show ?thesis
    by (auto simp: CalcPressure_zero)
next
  case nz: False
  show ?thesis
  proof (cases "CalcPressure_dividend s = INT64_MIN \<and> CalcPressure_var1 s = - 1")
    case True
    with assms show ?thesis
      by (simp add: CalcPressure_overflow)
  next
    case False
    from CalcPressure_nonzero [OF nz False] assms show ?thesis
      by auto
  qed
qed

text \<open>
  C4, as the code has it.  Whatever FineTemp, RawPress and the calibration are: when
  \<open>var1\<close> is zero, \<open>CalcPressure\<close> stores 0 in Pressure and has divided by nothing;
  when it is not, the one division is by \<open>var1\<close>, so no division is ever by zero.
  \<open>CalcPressure\<close> returns on every input on which that division does not overflow,
  that is unless \<open>var1\<close> is \<open>-1\<close> and the dividend is \<open>INT64_MIN\<close>.
\<close>

theorem CalcPressure_never_divides_by_zero:
  "(CalcPressure_var1 s = 0 \<longrightarrow> CalcPressure s = Inr ([], s\<lparr>Pressure := 0\<rparr>)) \<and>
   (CalcPressure_var1 s \<noteq> 0 \<and>
    \<not> (CalcPressure_dividend s = INT64_MIN \<and> CalcPressure_var1 s = - 1) \<longrightarrow>
      (\<exists>p. CalcPressure s = Inr ([CalcPressure_var1 s], s\<lparr>Pressure := p\<rparr>))) \<and>
   CalcPressure s \<noteq> Inl DivideByZero"
proof (intro conjI impI)
  assume "CalcPressure_var1 s = 0"
  then show "CalcPressure s = Inr ([], s\<lparr>Pressure := 0\<rparr>)"
    by (rule CalcPressure_zero)
next
  assume "CalcPressure_var1 s \<noteq> 0 \<and>
    \<not> (CalcPressure_dividend s = INT64_MIN \<and> CalcPressure_var1 s = - 1)"
  then have "CalcPressure_var1 s \<noteq> 0"
    and "\<not> (CalcPressure_dividend s = INT64_MIN \<and> CalcPressure_var1 s = - 1)"
    by simp_all
  from CalcPressure_nonzero [OF this]
  show "\<exists>p. CalcPressure s = Inr ([CalcPressure_var1 s], s\<lparr>Pressure := p\<rparr>)"
    by blast
next
  show "CalcPressure s \<noteq> Inl DivideByZero"
    by (rule CalcPressure_not_DivideByZero)
qed

theorem CalcPressure_never_divides_by_zero_witness:
  "CalcPressure_var1 zeroed = 0 \<and>
   CalcPressure zeroed = Inr ([], zeroed\<lparr>Pressure := 0\<rparr>) \<and>
   CalcPressure_var1 (DefaultCalib (zeroed\<lparr>FineTemp := 128422, RawPress := 415148\<rparr>)) \<noteq> 0 \<and>
   CalcPressure_var1 (DefaultCalib (zeroed\<lparr>FineTemp := 128422, RawPress := 415148\<rparr>)) \<noteq> - 1 \<and>
   (\<exists>p. CalcPressure (DefaultCalib (zeroed\<lparr>FineTemp := 128422, RawPress := 415148\<rparr>)) =
        Inr ([597560748], DefaultCalib (zeroed\<lparr>FineTemp := 128422, RawPress := 415148\<rparr>)\<lparr>Pressure := p\<rparr>))"
proof -
  have z: "CalcPressure_var1 zeroed = 0"
    by code_simp
  have n: "CalcPressure_var1 (DefaultCalib (zeroed\<lparr>FineTemp := 128422, RawPress := 415148\<rparr>)) = 597560748"
    by code_simp
  have n0: "(597560748 :: s64) \<noteq> 0" and n1: "(597560748 :: s64) \<noteq> - 1"
    by simp_all
  show ?thesis
    using CalcPressure_never_divides_by_zero [of zeroed]
      CalcPressure_never_divides_by_zero [of "DefaultCalib (zeroed\<lparr>FineTemp := 128422, RawPress := 415148\<rparr>)"]
    by (simp only: z n n0 n1 simp_thms)
qed

text \<open>
  C4 as stated fails where it says that \<open>CalcPressure\<close> is total.  With FineTemp
  1073870336, RawPress 2146434048, \<open>P1 = 1\<close>, \<open>P2 = -32\<close>, \<open>P5 = 32736\<close>,
  \<open>P6 = 8192\<close> and the other coefficients 0, \<open>var1\<close> is \<open>-1\<close> and the dividend is
  \<open>INT64_MIN\<close>: the division overflows and \<open>CalcPressure\<close> does not return.
\<close>

theorem CalcPressure_division_overflows:
  "CalcPressure_var1
     (zeroed\<lparr>FineTemp := 1073870336, RawPress := 2146434048, P1 := 1, P2 := - 32,
             P5 := 32736, P6 := 8192\<rparr>) = - 1 \<and>
   CalcPressure_dividend
     (zeroed\<lparr>FineTemp := 1073870336, RawPress := 2146434048, P1 := 1, P2 := - 32,
             P5 := 32736, P6 := 8192\<rparr>) = INT64_MIN \<and>
   CalcPressure
     (zeroed\<lparr>FineTemp := 1073870336, RawPress := 2146434048, P1 := 1, P2 := - 32,
             P5 := 32736, P6 := 8192\<rparr>) = Inl Overflow"
proof -
  have v: "CalcPressure_var1
     (zeroed\<lparr>FineTemp := 1073870336, RawPress := 2146434048, P1 := 1, P2 := - 32,
             P5 := 32736, P6 := 8192\<rparr>) = - 1"
    by code_simp
  have d: "CalcPressure_dividend
     (zeroed\<lparr>FineTemp := 1073870336, RawPress := 2146434048, P1 := 1, P2 := - 32,
             P5 := 32736, P6 := 8192\<rparr>) = INT64_MIN"
    by code_simp
  from v d CalcPressure_overflow [OF v d] show ?thesis
    by (simp only: simp_thms)
qed

section \<open>What the compensation functions write\<close>

text \<open>
  C9.  \<open>CalcTemperature\<close> returns the object with FineTemp and Temperature replaced and
  nothing else; whenever \<open>CalcPressure\<close> returns, it returns the object with Pressure
  replaced and nothing else.  The coefficients, \<open>D\<close>, the raw samples and Error are
  as before.
\<close>

theorem Calc_frame:
  "(\<exists>f t. CalcTemperature s = s\<lparr>FineTemp := f, Temperature := t\<rparr>) \<and>
   (\<forall>ds s'. CalcPressure s = Inr (ds, s') \<longrightarrow> (\<exists>p. s' = s\<lparr>Pressure := p\<rparr>))"
proof
  show "\<exists>f t. CalcTemperature s = s\<lparr>FineTemp := f, Temperature := t\<rparr>"
    unfolding CalcTemperature_def Let_def by blast
  show "\<forall>ds s'. CalcPressure s = Inr (ds, s') \<longrightarrow> (\<exists>p. s' = s\<lparr>Pressure := p\<rparr>)"
    by (blast dest: CalcPressure_Inr)
qed

theorem Calc_frame_witness:
  "CalcPressure (DefaultCalib (zeroed\<lparr>FineTemp := 128422, RawPress := 415148\<rparr>)) =
     Inr ([597560748],
          DefaultCalib (zeroed\<lparr>FineTemp := 128422, RawPress := 415148, Pressure := 402613\<rparr>)) \<and>
   (\<exists>p. DefaultCalib (zeroed\<lparr>FineTemp := 128422, RawPress := 415148, Pressure := 402613\<rparr>) =
        (DefaultCalib (zeroed\<lparr>FineTemp := 128422, RawPress := 415148\<rparr>))\<lparr>Pressure := p\<rparr>)"
proof -
  have e: "CalcPressure (DefaultCalib (zeroed\<lparr>FineTemp := 128422, RawPress := 415148\<rparr>)) =
      Inr ([597560748],
           DefaultCalib (zeroed\<lparr>FineTemp := 128422, RawPress := 415148, Pressure := 402613\<rparr>))"
    by code_simp
  from Calc_frame [of "DefaultCalib (zeroed\<lparr>FineTemp := 128422, RawPress := 415148\<rparr>)"] e
  show ?thesis
    by blast
qed

section \<open>The temperature formula with the default calibration\<close>

lemma var1_default: "CalcTemperature_var1 (DefaultCalib s) = ref_var1 (RawTemp s)"
  by (simp add: CalcTemperature_var1_def DefaultCalib_def ref_var1_def)

lemma var2_default: "CalcTemperature_var2 (DefaultCalib s) = ref_var2 (RawTemp s)"
  by (simp add: CalcTemperature_var2_def DefaultCalib_def ref_var2_def)

lemma div_between:
  fixes k :: int
  assumes "lo \<le> k" and "k \<le> hi" and "0 < d"
  shows "lo div d \<le> k div d \<and> k div d \<le> hi div d"
  using assms by (simp add: zdiv_mono1)

lemma sint_sdb32: "sint (signed_drop_bit n (w :: s32)) = sint w div 2 ^ n"
  by (simp add: sint_signed_drop_bit_eq drop_bit_eq_div)

lemma sint32_range: "- 2147483648 \<le> sint (w :: s32) \<and> sint w \<le> 2147483647"
  using sint_ge [of w] sint_lt [of w] by simp

lemma stb31: "- 2147483648 \<le> k \<Longrightarrow> k \<le> 2147483647 \<Longrightarrow> signed_take_bit 31 k = (k::int)"
  by (rule signed_take_bit_int_eq_self) simp_all

lemma sint_add32:
  "- 2147483648 \<le> sint a + sint b \<Longrightarrow> sint a + sint b \<le> 2147483647 \<Longrightarrow>
   sint (a + b :: s32) = sint a + sint b"
  by (simp add: sint_word_add stb31)

lemma sint_mult32:
  "- 2147483648 \<le> sint a * sint b \<Longrightarrow> sint a * sint b \<le> 2147483647 \<Longrightarrow>
   sint (a * b :: s32) = sint a * sint b"
  by (simp add: sint_word_mult stb31)

lemma ref_var1_range: "- 1048576 \<le> sint (ref_var1 adc) \<and> sint (ref_var1 adc) \<le> 1048575"
proof -
  define k where "k = sint ((signed_drop_bit 3 adc - push_bit 1 27504) * 26435)"
  have "- 2147483648 \<le> k \<and> k \<le> 2147483647"
    unfolding k_def by (rule sint32_range)
  then have "- 1048576 \<le> k div 2 ^ 11 \<and> k div 2 ^ 11 \<le> 1048575"
    using div_between [of "- 2147483648" k 2147483647 2048] by simp
  then show ?thesis
    by (simp only: ref_var1_def sint_sdb32 k_def)
qed

lemma ref_var2_range: "- 32000 \<le> sint (ref_var2 adc) \<and> sint (ref_var2 adc) \<le> 32000"
proof -
  define z where "z = (signed_drop_bit 4 adc - 27504) * (signed_drop_bit 4 adc - 27504)"
  define y where "y = signed_drop_bit 12 z"
  have "- 2147483648 \<le> sint z \<and> sint z \<le> 2147483647"
    by (rule sint32_range)
  then have y: "- 524288 \<le> sint y \<and> sint y \<le> 524287"
    unfolding y_def sint_sdb32
    using div_between [of "- 2147483648" "sint z" 2147483647 4096] by simp
  have m: "sint (- 1000 :: s32) = - 1000"
    by simp
  have "sint (y * (- 1000)) = sint y * sint (- 1000 :: s32)"
    using y by (intro sint_mult32) (simp_all only: m, linarith+)
  then have e: "sint (ref_var2 adc) = (sint y * (- 1000)) div 2 ^ 14"
    by (simp only: ref_var2_def sint_sdb32 y_def z_def m)
  have "- 524287000 \<le> sint y * (- 1000) \<and> sint y * (- 1000) \<le> 524288000"
    using y by linarith
  then show ?thesis
    unfolding e
    using div_between [of "- 524287000" "sint y * (- 1000)" 524288000 16384] by simp
qed


lemma ref_fine_sint: "sint (ref_fine adc) = sint (ref_var1 adc) + sint (ref_var2 adc)"
  unfolding ref_fine_def
  using ref_var1_range [of adc] ref_var2_range [of adc]
  by (intro sint_add32) linarith+

lemma ref_fine_range: "- 1080576 \<le> sint (ref_fine adc) \<and> sint (ref_fine adc) \<le> 1080575"
  using ref_var1_range [of adc] ref_var2_range [of adc] by (simp only: ref_fine_sint) linarith

lemma ref_temperature_sint: "sint (ref_temperature adc) = (sint (ref_fine adc) + 256) div 2 ^ 9"
proof -
  have c: "sint (256 :: s32) = 256"
    by simp
  have "sint (ref_fine adc + 256) = sint (ref_fine adc) + sint (256 :: s32)"
    using ref_fine_range [of adc] by (intro sint_add32) (simp_all only: c, linarith+)
  then show ?thesis
    by (simp only: ref_temperature_def sint_sdb32 c)
qed

lemma ref_temperature_range:
  "- 2111 \<le> sint (ref_temperature adc) \<and> sint (ref_temperature adc) \<le> 2111"
proof -
  have "- 1080320 \<le> sint (ref_fine adc) + 256 \<and> sint (ref_fine adc) + 256 \<le> 1080831"
    using ref_fine_range [of adc] by linarith
  then show ?thesis
    unfolding ref_temperature_sint
    using div_between [of "- 1080320" "sint (ref_fine adc) + 256" 1080831 512] by simp
qed

lemma sint_narrow16:
  assumes "- 32768 \<le> sint (w :: s32)" and "sint w \<le> 32767"
  shows "sint (ucast w :: s16) = sint w"
proof -
  have "(ucast w :: s16) = scast w"
    by (rule bit_word_eqI) (auto simp: bit_simps)
  then have "sint (ucast w :: s16) = signed_take_bit 15 (sint w)"
    by (simp only: scast_eq sint_sbintrunc') simp
  also have "\<dots> = sint w"
    using assms by (intro signed_take_bit_int_eq_self) simp_all
  finally show ?thesis .
qed

lemma CalcTemperature_default:
  "CalcTemperature (DefaultCalib s) =
     (DefaultCalib s)\<lparr>FineTemp := ref_fine (RawTemp s),
                      Temperature := ucast (ref_temperature (RawTemp s))\<rparr>"
  by (simp add: CalcTemperature_def Let_def var1_default var2_default ref_fine_def ref_temperature_def)

text \<open>
  C5.  With the default calibration constants and any RawTemp, FineTemp is
  \<open>var1 + var2\<close> of the reference formula, and Temperature is
  \<open>(FineTemp + 256) >> 9\<close>: the 16-bit field, sign-extended, is that 32-bit value bit
  for bit, and read as integers the shift is the floor division by 512 of
  \<open>FineTemp + 256\<close> with no wrap-around.
\<close>

theorem CalcTemperature_default_reference:
  "FineTemp (CalcTemperature (DefaultCalib s)) = ref_var1 (RawTemp s) + ref_var2 (RawTemp s) \<and>
   scast (Temperature (CalcTemperature (DefaultCalib s))) =
     signed_drop_bit 9 (FineTemp (CalcTemperature (DefaultCalib s)) + 256) \<and>
   sint (Temperature (CalcTemperature (DefaultCalib s))) =
     (sint (FineTemp (CalcTemperature (DefaultCalib s))) + 256) div 2 ^ 9"
proof -
  let ?r = "RawTemp s"
  have n: "sint (ucast (ref_temperature ?r) :: s16) = sint (ref_temperature ?r)"
    using ref_temperature_range [of ?r] by (intro sint_narrow16) linarith+
  have "sint (scast (ucast (ref_temperature ?r) :: s16) :: s32) = sint (ref_temperature ?r)"
    by (simp add: sint_up_scast is_up n)
  then have w: "(scast (ucast (ref_temperature ?r) :: s16) :: s32) = ref_temperature ?r"
    by (rule signed_word_eqI)
  show ?thesis
    using n w
    by (simp add: CalcTemperature_default ref_fine_def [symmetric] ref_temperature_sint)
       (simp add: ref_temperature_def)
qed

text \<open>The worked example of the data sheet: raw 519888 is 25.08 degC, stored as 251.\<close>

lemma CalcTemperature_datasheet:
  "CalcTemperature (DefaultCalib (zeroed\<lparr>RawTemp := 519888\<rparr>)) =
     DefaultCalib (zeroed\<lparr>RawTemp := 519888, FineTemp := 128422, Temperature := 251\<rparr>)"
  by code_simp

section \<open>The compensation functions as state transformers\<close>

text \<open>
  After \<open>CalcTemperature\<close> the magnitude of FineTemp is at most \<open>2^20 + 2^17\<close>, whatever
  the calibration; the dividend of the pressure formula then stays inside 64 bits before the
  multiplication by 3125, so it is never \<open>INT64_MIN\<close> and the division cannot overflow.
\<close>

lemma stb63:
  "- 9223372036854775808 \<le> k \<Longrightarrow> k \<le> 9223372036854775807 \<Longrightarrow> signed_take_bit 63 k = (k::int)"
  by (rule signed_take_bit_int_eq_self) simp_all

lemma abs_mult_le:
  fixes a b :: int
  assumes "\<bar>a\<bar> \<le> A" and "\<bar>b\<bar> \<le> B"
  shows "\<bar>a * b\<bar> \<le> A * B"
proof -
  have "\<bar>a * b\<bar> = \<bar>a\<bar> * \<bar>b\<bar>"
    by (rule abs_mult)
  also have "\<dots> \<le> A * B"
    using assms by (intro mult_mono) simp_all
  finally show ?thesis .
qed

lemma sint_mult64:
  assumes "\<bar>sint a\<bar> \<le> A" and "\<bar>sint b\<bar> \<le> B" and "A * B \<le> 9223372036854775807"
  shows "sint (a * b :: s64) = sint a * sint b \<and> \<bar>sint (a * b)\<bar> \<le> A * B"
proof -
  have m: "\<bar>sint a * sint b\<bar> \<le> A * B"
    using assms(1,2) by (rule abs_mult_le)
  with assms(3) have "- 9223372036854775808 \<le> sint a * sint b"
    and "sint a * sint b \<le> 9223372036854775807"
    by linarith+
  then have "sint (a * b) = sint a * sint b"
    by (simp add: sint_word_mult stb63)
  with m show ?thesis
    by simp
qed

lemma sint_add64:
  assumes "\<bar>sint a\<bar> \<le> A" and "\<bar>sint b\<bar> \<le> B" and "A + B \<le> 9223372036854775807"
  shows "sint (a + b :: s64) = sint a + sint b \<and> \<bar>sint (a + b)\<bar> \<le> A + B"
proof -
  have m: "\<bar>sint a + sint b\<bar> \<le> A + B"
    using assms(1,2) by linarith
  with assms(3) have "- 9223372036854775808 \<le> sint a + sint b"
    and "sint a + sint b \<le> 9223372036854775807"
    by linarith+
  then have "sint (a + b) = sint a + sint b"
    by (simp add: sint_word_add stb63)
  with m show ?thesis
    by simp
qed

lemma sint_diff64:
  assumes "\<bar>sint a\<bar> \<le> A" and "\<bar>sint b\<bar> \<le> B" and "A + B \<le> 9223372036854775807"
  shows "sint (a - b :: s64) = sint a - sint b \<and> \<bar>sint (a - b)\<bar> \<le> A + B"
proof -
  have m: "\<bar>sint a - sint b\<bar> \<le> A + B"
    using assms(1,2) by linarith
  with assms(3) have "- 9223372036854775808 \<le> sint a - sint b"
    and "sint a - sint b \<le> 9223372036854775807"
    by linarith+
  then have "sint (a - b) = sint a - sint b"
    by (simp add: sint_word_diff stb63)
  with m show ?thesis
    by simp
qed

lemma sint_scast16: "\<bar>sint (scast (c :: s16) :: s64)\<bar> \<le> 32768"
proof -
  have "sint (scast c :: s64) = sint c"
    by (simp add: sint_up_scast is_up)
  moreover have "- 32768 \<le> sint c" and "sint c < 32768"
    using sint_ge [of c] sint_lt [of c] by simp_all
  ultimately show ?thesis
    by linarith
qed

lemma sint_scast32: "\<bar>sint (scast (c :: s32) :: s64)\<bar> \<le> 2147483648"
proof -
  have "sint (scast c :: s64) = sint c"
    by (simp add: sint_up_scast is_up)
  moreover have "- 2147483648 \<le> sint c" and "sint c < 2147483648"
    using sint_ge [of c] sint_lt [of c] by simp_all
  ultimately show ?thesis
    by linarith
qed

lemma times_3125_inj:
  assumes "x * 3125 = INT64_MIN"
  shows "(x :: s64) = INT64_MIN"
proof -
  have i: "(3125 :: s64) * 6723469279985657373 = 1"
    by simp
  have "x = x * (3125 * 6723469279985657373)"
    by (simp only: i mult_1_right)
  also have "\<dots> = (x * 3125) * 6723469279985657373"
    by (simp only: mult.assoc)
  also have "\<dots> = INT64_MIN * 6723469279985657373"
    by (simp only: assms)
  also have "\<dots> = INT64_MIN"
    by (simp add: INT64_MIN_def)
  finally show ?thesis .
qed

lemma sint_INT64_MIN: "sint INT64_MIN = - 9223372036854775808"
  by (simp add: INT64_MIN_def)


lemma FineTemp_CalcTemperature_range: "\<bar>sint (FineTemp (CalcTemperature s))\<bar> \<le> 1179648"
proof -
  define x where "x = (signed_drop_bit 3 (RawTemp s) - push_bit 1 (ucast (T1 s))) * scast (T2 s)"
  define y where "y = signed_drop_bit 12
          ((signed_drop_bit 4 (RawTemp s) - ucast (T1 s)) *
           (signed_drop_bit 4 (RawTemp s) - ucast (T1 s)))
        * scast (T3 s)"
  have v1: "CalcTemperature_var1 s = signed_drop_bit 11 x"
    by (simp add: CalcTemperature_var1_def x_def)
  have v2: "CalcTemperature_var2 s = signed_drop_bit 14 y"
    by (simp add: CalcTemperature_var2_def y_def)
  have r1: "- 1048576 \<le> sint (CalcTemperature_var1 s) \<and> sint (CalcTemperature_var1 s) \<le> 1048575"
    unfolding v1 sint_sdb32
    using sint32_range [of x] div_between [of "- 2147483648" "sint x" 2147483647 2048] by simp
  have r2: "- 131072 \<le> sint (CalcTemperature_var2 s) \<and> sint (CalcTemperature_var2 s) \<le> 131071"
    unfolding v2 sint_sdb32
    using sint32_range [of y] div_between [of "- 2147483648" "sint y" 2147483647 16384] by simp
  have "sint (CalcTemperature_var1 s + CalcTemperature_var2 s) =
      sint (CalcTemperature_var1 s) + sint (CalcTemperature_var2 s)"
    using r1 r2 by (intro sint_add32) linarith+
  with r1 r2 have "\<bar>sint (CalcTemperature_var1 s + CalcTemperature_var2 s)\<bar> \<le> 1179648"
    by linarith
  then show ?thesis
    by (simp add: CalcTemperature_def Let_def)
qed

lemma CalcPressure_dividend_not_MIN:
  assumes "\<bar>sint (FineTemp s)\<bar> \<le> 1179648"
  shows "CalcPressure_dividend s \<noteq> INT64_MIN"
proof
  define d :: s64 where "d = scast (FineTemp s) - 128000"
  define p :: s64 where "p = scast ((1048576 :: s32) - RawPress s)"
  define x where "x = push_bit 31 p - CalcPressure_var2 s"
  have f: "\<bar>sint (scast (FineTemp s) :: s64)\<bar> \<le> 1179648"
    using assms by (simp add: sint_up_scast is_up)
  have c: "\<bar>sint (128000 :: s64)\<bar> \<le> 128000"
    by simp
  from sint_diff64 [OF f c, THEN conjunct2] have bd: "\<bar>sint d\<bar> \<le> 1307648"
    by (simp add: d_def)
  from sint_mult64 [OF bd bd, THEN conjunct2] have bdd: "\<bar>sint (d * d)\<bar> \<le> 1709943291904"
    by simp
  from sint_mult64 [OF bdd sint_scast16 [of "P6 s"], THEN conjunct2]
  have b6: "\<bar>sint (d * d * scast (P6 s))\<bar> \<le> 56031421789110272"
    by simp
  from sint_mult64 [OF bd sint_scast16 [of "P5 s"], THEN conjunct2]
  have b5: "\<bar>sint (d * scast (P5 s))\<bar> \<le> 42849009664"
    by simp
  have c17: "\<bar>sint (131072 :: s64)\<bar> \<le> 131072"
    by simp
  from sint_mult64 [OF b5 c17, THEN conjunct2]
  have b5': "\<bar>sint (d * scast (P5 s) * 131072)\<bar> \<le> 5616305394679808"
    by simp
  have c35: "\<bar>sint (34359738368 :: s64)\<bar> \<le> 34359738368"
    by simp
  from sint_mult64 [OF sint_scast16 [of "P4 s"] c35, THEN conjunct2]
  have b4: "\<bar>sint (scast (P4 s) * 34359738368 :: s64)\<bar> \<le> 1125899906842624"
    by simp
  from sint_add64 [OF b6 b5', THEN conjunct2]
  have b65: "\<bar>sint (d * d * scast (P6 s) + d * scast (P5 s) * 131072)\<bar> \<le> 61647727183790080"
    by simp
  from sint_add64 [OF b65 b4, THEN conjunct2]
  have "\<bar>sint (d * d * scast (P6 s) + d * scast (P5 s) * 131072 + scast (P4 s) * 34359738368)\<bar>
      \<le> 62773627090632704"
    by simp
  moreover have "CalcPressure_var2 s =
      d * d * scast (P6 s) + d * scast (P5 s) * 131072 + scast (P4 s) * 34359738368"
    by (simp add: CalcPressure_var2_def d_def push_bit_eq_mult Let_def)
  ultimately have bv: "\<bar>sint (CalcPressure_var2 s)\<bar> \<le> 62773627090632704"
    by simp
  have c31: "\<bar>sint (2147483648 :: s64)\<bar> \<le> 2147483648"
    by simp
  from sint_mult64 [OF sint_scast32 [of "(1048576 :: s32) - RawPress s"] c31, THEN conjunct2]
  have "\<bar>sint (p * 2147483648)\<bar> \<le> 4611686018427387904"
    by (simp add: p_def)
  then have bp: "\<bar>sint (push_bit 31 p)\<bar> \<le> 4611686018427387904"
    by (simp add: push_bit_eq_mult)
  from sint_diff64 [OF bp bv, THEN conjunct2] have bx: "\<bar>sint x\<bar> \<le> 4674459645518020608"
    by (simp add: x_def)
  assume "CalcPressure_dividend s = INT64_MIN"
  then have "x * 3125 = INT64_MIN"
    by (simp add: CalcPressure_dividend_def x_def p_def Let_def)
  then have "x = INT64_MIN"
    by (rule times_3125_inj)
  with bx show False
    by (simp add: sint_INT64_MIN)
qed

lemma CalcPressure_after_CalcTemperature:
  "CalcPressure_dividend (CalcTemperature s) \<noteq> INT64_MIN"
  by (rule CalcPressure_dividend_not_MIN) (rule FineTemp_CalcTemperature_range)

lemma CalcTemperature_cong:
  assumes "RawTemp a = RawTemp b" "T1 a = T1 b" "T2 a = T2 b" "T3 a = T3 b"
  shows "\<exists>f t. CalcTemperature a = a\<lparr>FineTemp := f, Temperature := t\<rparr> \<and>
               CalcTemperature b = b\<lparr>FineTemp := f, Temperature := t\<rparr>"
proof -
  have "CalcTemperature_var1 a = CalcTemperature_var1 b"
    and "CalcTemperature_var2 a = CalcTemperature_var2 b"
    using assms by (simp_all add: CalcTemperature_var1_def CalcTemperature_var2_def)
  then show ?thesis
    unfolding CalcTemperature_def Let_def by (simp only:) blast
qed

lemma CalcPressure_cong:
  assumes "FineTemp a = FineTemp b" "RawPress a = RawPress b" "P1 a = P1 b" "P2 a = P2 b"
    "P3 a = P3 b" "P4 a = P4 b" "P5 a = P5 b" "P6 a = P6 b" "P7 a = P7 b" "P8 a = P8 b"
    "P9 a = P9 b"
    and nm: "CalcPressure_dividend b \<noteq> INT64_MIN"
  shows "\<exists>ds p. CalcPressure a = Inr (ds, a\<lparr>Pressure := p\<rparr>) \<and>
                CalcPressure b = Inr (ds, b\<lparr>Pressure := p\<rparr>)"
proof -
  have v: "CalcPressure_var1 a = CalcPressure_var1 b"
    using assms by (simp add: CalcPressure_var1_def)
  have d: "CalcPressure_dividend a = CalcPressure_dividend b"
    using assms by (simp add: CalcPressure_dividend_def CalcPressure_var2_def)
  have r: "CalcPressure_result a q = CalcPressure_result b q" for q
    using assms by (simp add: CalcPressure_result_def)
  show ?thesis
  proof (cases "CalcPressure_var1 b = 0")
    case True
    with v show ?thesis
      by (simp only: CalcPressure_zero) blast
  next
    case False
    with v have za: "CalcPressure_var1 a \<noteq> 0"
      by simp
    from nm d have na: "\<not> (CalcPressure_dividend a = INT64_MIN \<and> CalcPressure_var1 a = - 1)"
      by simp
    from nm have nb: "\<not> (CalcPressure_dividend b = INT64_MIN \<and> CalcPressure_var1 b = - 1)"
      by simp
    from CalcPressure_nonzero [OF za na] CalcPressure_nonzero [OF False nb] show ?thesis
      by (simp only: v d r) blast
  qed
qed

text \<open>
  C8.  Running \<open>CalcTemperature\<close> then \<open>CalcPressure\<close> on the state they have
  produced gives that same state again, so Temperature, FineTemp and Pressure are
  identical; and two objects with equal RawTemp, RawPress and calibration give equal
  Temperature, FineTemp and Pressure, whatever their other fields hold.
\<close>

theorem Calc_idempotent_deterministic:
  "(\<exists>s'. Calc s = Inr s' \<and> Calc s' = Inr s') \<and>
   (RawTemp a = RawTemp b \<and> RawPress a = RawPress b \<and>
    T1 a = T1 b \<and> T2 a = T2 b \<and> T3 a = T3 b \<and>
    P1 a = P1 b \<and> P2 a = P2 b \<and> P3 a = P3 b \<and> P4 a = P4 b \<and> P5 a = P5 b \<and>
    P6 a = P6 b \<and> P7 a = P7 b \<and> P8 a = P8 b \<and> P9 a = P9 b \<longrightarrow>
      (\<exists>a' b'. Calc a = Inr a' \<and> Calc b = Inr b' \<and>
         Temperature a' = Temperature b' \<and> FineTemp a' = FineTemp b' \<and>
         Pressure a' = Pressure b'))"
proof
  obtain f t where t: "CalcTemperature s = s\<lparr>FineTemp := f, Temperature := t\<rparr>"
    using CalcTemperature_cong [of s s] by blast
  define s1 where "s1 = s\<lparr>FineTemp := f, Temperature := t\<rparr>"
  have m1: "CalcPressure_dividend s1 \<noteq> INT64_MIN"
    using CalcPressure_after_CalcTemperature [of s] by (simp add: t s1_def)
  obtain ds p where p: "CalcPressure s1 = Inr (ds, s1\<lparr>Pressure := p\<rparr>)"
    using CalcPressure_cong [of s1 s1] m1 by blast
  define s2 where "s2 = s1\<lparr>Pressure := p\<rparr>"
  have m2: "CalcPressure_dividend s2 \<noteq> INT64_MIN"
    using m1 by (simp add: s2_def CalcPressure_dividend_def CalcPressure_var2_def)
  have c1: "Calc s = Inr s2"
    by (simp add: Calc_def t p s1_def [symmetric] s2_def)
  obtain f' t' where t': "CalcTemperature s = s\<lparr>FineTemp := f', Temperature := t'\<rparr>"
    and t2: "CalcTemperature s2 = s2\<lparr>FineTemp := f', Temperature := t'\<rparr>"
    using CalcTemperature_cong [of s s2] by (auto simp: s2_def s1_def)
  from t t' have "FineTemp (s\<lparr>FineTemp := f, Temperature := t\<rparr>) = FineTemp (s\<lparr>FineTemp := f', Temperature := t'\<rparr>)"
    and "Temperature (s\<lparr>FineTemp := f, Temperature := t\<rparr>) = Temperature (s\<lparr>FineTemp := f', Temperature := t'\<rparr>)"
    by simp_all
  then have "f' = f" "t' = t"
    by simp_all
  with t2 have t3: "CalcTemperature s2 = s2"
    by (simp add: s2_def s1_def)
  obtain ds' p' where p1: "CalcPressure s1 = Inr (ds', s1\<lparr>Pressure := p'\<rparr>)"
    and p2: "CalcPressure s2 = Inr (ds', s2\<lparr>Pressure := p'\<rparr>)"
    using CalcPressure_cong [of s1 s2] m2 by (auto simp: s2_def)
  from p p1 have "Pressure (s1\<lparr>Pressure := p\<rparr>) = Pressure (s1\<lparr>Pressure := p'\<rparr>)"
    by simp
  then have "p' = p"
    by simp
  with p2 have "CalcPressure s2 = Inr (ds', s2)"
    by (simp add: s2_def)
  with t3 have "Calc s2 = Inr s2"
    by (simp add: Calc_def)
  with c1 show "\<exists>s'. Calc s = Inr s' \<and> Calc s' = Inr s'"
    by blast
next
  show "RawTemp a = RawTemp b \<and> RawPress a = RawPress b \<and>
    T1 a = T1 b \<and> T2 a = T2 b \<and> T3 a = T3 b \<and>
    P1 a = P1 b \<and> P2 a = P2 b \<and> P3 a = P3 b \<and> P4 a = P4 b \<and> P5 a = P5 b \<and>
    P6 a = P6 b \<and> P7 a = P7 b \<and> P8 a = P8 b \<and> P9 a = P9 b \<longrightarrow>
      (\<exists>a' b'. Calc a = Inr a' \<and> Calc b = Inr b' \<and>
         Temperature a' = Temperature b' \<and> FineTemp a' = FineTemp b' \<and>
         Pressure a' = Pressure b')"
  proof
    assume h: "RawTemp a = RawTemp b \<and> RawPress a = RawPress b \<and>
      T1 a = T1 b \<and> T2 a = T2 b \<and> T3 a = T3 b \<and>
      P1 a = P1 b \<and> P2 a = P2 b \<and> P3 a = P3 b \<and> P4 a = P4 b \<and> P5 a = P5 b \<and>
      P6 a = P6 b \<and> P7 a = P7 b \<and> P8 a = P8 b \<and> P9 a = P9 b"
    then obtain f t where ta: "CalcTemperature a = a\<lparr>FineTemp := f, Temperature := t\<rparr>"
      and tb: "CalcTemperature b = b\<lparr>FineTemp := f, Temperature := t\<rparr>"
      using CalcTemperature_cong [of a b] by blast
    have mb: "CalcPressure_dividend (b\<lparr>FineTemp := f, Temperature := t\<rparr>) \<noteq> INT64_MIN"
      using CalcPressure_after_CalcTemperature [of b] by (simp add: tb)
    obtain ds p where pa: "CalcPressure (a\<lparr>FineTemp := f, Temperature := t\<rparr>) =
        Inr (ds, a\<lparr>FineTemp := f, Temperature := t, Pressure := p\<rparr>)"
      and pb: "CalcPressure (b\<lparr>FineTemp := f, Temperature := t\<rparr>) =
        Inr (ds, b\<lparr>FineTemp := f, Temperature := t, Pressure := p\<rparr>)"
      using h mb CalcPressure_cong [of "a\<lparr>FineTemp := f, Temperature := t\<rparr>" "b\<lparr>FineTemp := f, Temperature := t\<rparr>"]
      by auto
    have "Calc a = Inr (a\<lparr>FineTemp := f, Temperature := t, Pressure := p\<rparr>)"
      and "Calc b = Inr (b\<lparr>FineTemp := f, Temperature := t, Pressure := p\<rparr>)"
      by (simp_all add: Calc_def ta tb pa pb)
    then show "\<exists>a' b'. Calc a = Inr a' \<and> Calc b = Inr b' \<and>
         Temperature a' = Temperature b' \<and> FineTemp a' = FineTemp b' \<and>
         Pressure a' = Pressure b'"
      by simp
  qed
qed

theorem Calc_idempotent_deterministic_witness:
  "RawTemp (DefaultCalib (zeroed\<lparr>RawTemp := 519888, RawPress := 415148\<rparr>)) =
     RawTemp (DefaultCalib (zeroed\<lparr>RawTemp := 519888, RawPress := 415148, Error := 5,
                                  FineTemp := 99, Temperature := 1, Pressure := 3\<rparr>)) \<and>
   (\<exists>a' b'.
      Calc (DefaultCalib (zeroed\<lparr>RawTemp := 519888, RawPress := 415148\<rparr>)) = Inr a' \<and>
      Calc (DefaultCalib (zeroed\<lparr>RawTemp := 519888, RawPress := 415148, Error := 5,
                                FineTemp := 99, Temperature := 1, Pressure := 3\<rparr>)) = Inr b' \<and>
      Temperature a' = Temperature b' \<and> FineTemp a' = FineTemp b' \<and>
      Pressure a' = Pressure b')"
  using Calc_idempotent_deterministic
    [of "zeroed"
        "DefaultCalib (zeroed\<lparr>RawTemp := 519888, RawPress := 415148\<rparr>)"
        "DefaultCalib (zeroed\<lparr>RawTemp := 519888, RawPress := 415148, Error := 5,
                               FineTemp := 99, Temperature := 1, Pressure := 3\<rparr>)"]
  by (simp add: DefaultCalib_def)

section \<open>The status poll\<close>

lemma ReadBusy_eq:
  "ReadBusy bus s w =
     (poll_result (bus (count w)), s\<lparr>Error := fst (bus (count w))\<rparr>,
      w\<lparr>count := Suc (count w), trace := trace w @ [BusRead ADDR REG_STATUS 1]\<rparr>)"
  by (cases "bus (count w)")
     (simp add: ReadBusy_def I2C_Read_def poll_result_def Status_of_def Let_def)

lemma WaitReady_loop_0: "WaitReady_loop bus 0 s w = (0xFF, s, w)"
  by (simp add: WaitReady_loop.simps)

lemma WaitReady_loop_step:
  "Timeout \<noteq> 0 \<Longrightarrow>
   WaitReady_loop bus Timeout s w =
     (if 1 < poll_result (bus (count w)) \<or> poll_result (bus (count w)) = 0
      then (poll_result (bus (count w)), s\<lparr>Error := fst (bus (count w))\<rparr>,
            w\<lparr>count := Suc (count w), trace := trace w @ [BusRead ADDR REG_STATUS 1]\<rparr>)
      else WaitReady_loop bus (Timeout - 1) (s\<lparr>Error := fst (bus (count w))\<rparr>)
             (w\<lparr>count := Suc (count w),
                trace := trace w @ [BusRead ADDR REG_STATUS 1, Delay 1]\<rparr>))"
  by (subst WaitReady_loop.simps) (auto simp: ReadBusy_eq vTaskDelay_def)

lemma not_stop_iff: "\<not> (1 < (x::u8) \<or> x = 0) \<longleftrightarrow> x = 1"
  by (auto simp: not_less le_less word_less_1)

lemma WaitReady_loop_timeout:
  "unat Timeout = n \<Longrightarrow> \<forall>k<n. poll_result (bus (count w + k)) = 1 \<Longrightarrow>
   fst (WaitReady_loop bus Timeout s w) = 0xFF \<and>
   snd (snd (WaitReady_loop bus Timeout s w)) =
     w\<lparr>count := count w + n, trace := trace w @ polled n\<rparr>"
proof (induction n arbitrary: Timeout s w)
  case 0
  then have "Timeout = 0"
    by (simp add: unat_eq_0)
  then show ?case
    by (simp add: polled_def WaitReady_loop_0)
next
  case (Suc n)
  then have nz: "Timeout \<noteq> 0"
    by auto
  from Suc.prems(1) have u: "unat (Timeout - 1) = n"
    using nz by (simp add: unat_minus_one)
  from Suc.prems(2) have p0: "poll_result (bus (count w)) = 1"
    by (metis add.right_neutral zero_less_Suc)
  let ?s = "s\<lparr>Error := fst (bus (count w))\<rparr>"
  let ?w = "w\<lparr>count := Suc (count w), trace := trace w @ [BusRead ADDR REG_STATUS 1, Delay 1]\<rparr>"
  have "\<forall>k<n. poll_result (bus (count ?w + k)) = 1"
    using Suc.prems(2) by (metis Suc_less_eq add_Suc add_Suc_right io.select_convs(1) io.surjective io.update_convs(1,2))
  from Suc.IH [OF u this, of ?s]
  have "fst (WaitReady_loop bus (Timeout - 1) ?s ?w) = 0xFF"
    and "snd (snd (WaitReady_loop bus (Timeout - 1) ?s ?w)) =
           w\<lparr>count := count w + Suc n, trace := trace w @ polled (Suc n)\<rparr>"
    by (simp_all add: polled_def)
  moreover have "WaitReady_loop bus Timeout s w = WaitReady_loop bus (Timeout - 1) ?s ?w"
    by (simp add: WaitReady_loop_step [OF nz] p0)
  ultimately show ?case
    by (simp only:)
qed


lemma WaitReady_loop_stop:
  "k < unat Timeout \<Longrightarrow> \<forall>j<k. poll_result (bus (count w + j)) = 1 \<Longrightarrow>
   poll_result (bus (count w + k)) \<noteq> 1 \<Longrightarrow>
   WaitReady_loop bus Timeout s w =
     (poll_result (bus (count w + k)), s\<lparr>Error := fst (bus (count w + k))\<rparr>,
      w\<lparr>count := Suc (count w + k),
        trace := trace w @ polled k @ [BusRead ADDR REG_STATUS 1]\<rparr>)"
proof (induction k arbitrary: Timeout s w)
  case 0
  then have nz: "Timeout \<noteq> 0"
    by auto
  from 0 have "1 < poll_result (bus (count w)) \<or> poll_result (bus (count w)) = 0"
    using not_stop_iff [of "poll_result (bus (count w))"] by simp
  then show ?case
    by (simp add: WaitReady_loop_step [OF nz] polled_def)
next
  case (Suc k)
  then have nz: "Timeout \<noteq> 0"
    by auto
  from Suc.prems(1) have u: "k < unat (Timeout - 1)"
    using nz by (simp add: unat_minus_one)
  from Suc.prems(2) have p0: "poll_result (bus (count w)) = 1"
    by (metis add.right_neutral zero_less_Suc)
  let ?s = "s\<lparr>Error := fst (bus (count w))\<rparr>"
  let ?w = "w\<lparr>count := Suc (count w), trace := trace w @ [BusRead ADDR REG_STATUS 1, Delay 1]\<rparr>"
  have c: "count ?w + j = count w + Suc j" for j
    by simp
  have a: "\<forall>j<k. poll_result (bus (count ?w + j)) = 1"
    using Suc.prems(2) by (simp only: c) auto
  have b: "poll_result (bus (count ?w + k)) \<noteq> 1"
    using Suc.prems(3) by simp
  have "WaitReady_loop bus Timeout s w = WaitReady_loop bus (Timeout - 1) ?s ?w"
    by (simp add: WaitReady_loop_step [OF nz] p0)
  also have "\<dots> =
     (poll_result (bus (count ?w + k)), ?s\<lparr>Error := fst (bus (count ?w + k))\<rparr>,
      ?w\<lparr>count := Suc (count ?w + k),
        trace := trace ?w @ polled k @ [BusRead ADDR REG_STATUS 1]\<rparr>)"
    by (rule Suc.IH [OF u a b])
  also have "\<dots> =
     (poll_result (bus (count w + Suc k)), s\<lparr>Error := fst (bus (count w + Suc k))\<rparr>,
      w\<lparr>count := Suc (count w + Suc k),
        trace := trace w @ polled (Suc k) @ [BusRead ADDR REG_STATUS 1]\<rparr>)"
    by (simp add: polled_def)
  finally show ?case .
qed

lemma poll_result_0_iff: "poll_result r = 0 \<longleftrightarrow> fst r = 0 \<and> Status_of (snd r) AND 0x09 \<noteq> 0"
  by (simp add: poll_result_def)

lemma poll_result_error: "1 < fst r \<Longrightarrow> poll_result r = fst r"
  by (auto simp: poll_result_def)

lemma poll_result_1_iff:
  "poll_result r = 1 \<longleftrightarrow> fst r = 1 \<or> (fst r = 0 \<and> Status_of (snd r) AND 0x09 = 0)"
  by (auto simp: poll_result_def)

lemma WaitReady_returns_0_iff:
  "fst (WaitReady bus Timeout Wait s w) = 0 \<longleftrightarrow>
     (\<exists>k<unat Timeout. poll_result (bus (count w + k)) = 0 \<and>
        (\<forall>j<k. poll_result (bus (count w + j)) = 1))"
proof -
  let ?w = "vTaskDelay (unat Wait) w"
  have c: "count ?w = count w"
    by (simp add: vTaskDelay_def)
  show ?thesis
  proof
    assume z: "fst (WaitReady bus Timeout Wait s w) = 0"
    have "\<exists>k<unat Timeout. poll_result (bus (count w + k)) \<noteq> 1"
    proof (rule ccontr)
      assume "\<not> ?thesis"
      then have "\<forall>k<unat Timeout. poll_result (bus (count ?w + k)) = 1"
        by (simp add: c)
      from WaitReady_loop_timeout [OF refl this, of s] z show False
        by (simp add: WaitReady_def)
    qed
    then have "\<exists>k. (k < unat Timeout \<and> poll_result (bus (count w + k)) \<noteq> 1) \<and>
        (\<forall>j<k. \<not> (j < unat Timeout \<and> poll_result (bus (count w + j)) \<noteq> 1))"
      by (simp only: exists_least_iff [symmetric])
    then obtain k where k: "k < unat Timeout" "poll_result (bus (count w + k)) \<noteq> 1"
      and l: "\<forall>j<k. poll_result (bus (count w + j)) = 1"
      by (metis order.strict_trans)
    from WaitReady_loop_stop [of k Timeout bus ?w s] k l
    have "fst (WaitReady bus Timeout Wait s w) = poll_result (bus (count w + k))"
      by (simp add: WaitReady_def c)
    with z k l show "\<exists>k<unat Timeout. poll_result (bus (count w + k)) = 0 \<and>
        (\<forall>j<k. poll_result (bus (count w + j)) = 1)"
      by auto
  next
    assume "\<exists>k<unat Timeout. poll_result (bus (count w + k)) = 0 \<and>
        (\<forall>j<k. poll_result (bus (count w + j)) = 1)"
    then obtain k where k: "k < unat Timeout" "poll_result (bus (count w + k)) = 0"
      and l: "\<forall>j<k. poll_result (bus (count w + j)) = 1"
      by blast
    from WaitReady_loop_stop [of k Timeout bus ?w s] k l
    show "fst (WaitReady bus Timeout Wait s w) = 0"
      by (simp add: WaitReady_def c)
  qed
qed

lemma WaitReady_polls_bounded:
  "count (snd (snd (WaitReady bus Timeout Wait s w))) \<le> count w + unat Timeout"
proof -
  let ?w = "vTaskDelay (unat Wait) w"
  have c: "count ?w = count w"
    by (simp add: vTaskDelay_def)
  show ?thesis
  proof (cases "\<forall>k<unat Timeout. poll_result (bus (count ?w + k)) = 1")
    case True
    from WaitReady_loop_timeout [OF refl True, of s] show ?thesis
      by (simp add: WaitReady_def c)
  next
    case False
    then have "\<exists>k. (k < unat Timeout \<and> poll_result (bus (count w + k)) \<noteq> 1) \<and>
        (\<forall>j<k. \<not> (j < unat Timeout \<and> poll_result (bus (count w + j)) \<noteq> 1))"
      by (simp only: exists_least_iff [symmetric] c) blast
    then obtain k where k: "k < unat Timeout" "poll_result (bus (count w + k)) \<noteq> 1"
      and l: "\<forall>j<k. poll_result (bus (count w + j)) = 1"
      by (metis order.strict_trans)
    from WaitReady_loop_stop [of k Timeout bus ?w s] k l show ?thesis
      by (simp add: WaitReady_def c)
  qed
qed

lemma steady_const: "steady r n = r"
  by (simp add: steady_def)

text \<open>
  C1.  \<open>WaitReady\<close> is to return 0 exactly when a status read, masked with
  \<open>0b00001001\<close>, is zero within the attempt budget.  On the code
  (\<open>WaitReady_returns_0_iff\<close>, \<open>poll_result_0_iff\<close>) it returns 0 exactly when a
  status read has a masked value that is not zero.  Here the device reports ready, status
  \<open>0x00\<close>, at every poll and the bus never fails: \<open>WaitReady()\<close> sleeps 30 ticks,
  polls 20 times with a sleep of 1 tick after each, and returns \<open>0xFF\<close>.
\<close>

theorem WaitReady_ready_device_times_out:
  "fst (WaitReady_default (steady (0, [0x00])) zeroed io0) = 0xFF \<and>
   snd (snd (WaitReady_default (steady (0, [0x00])) zeroed io0)) =
     \<lparr>count = 20, trace = Delay 30 # polled 20\<rparr>"
proof -
  have "\<forall>k<20. poll_result (steady (0, [0x00]) (count (vTaskDelay 30 io0) + k)) = 1"
    by (simp add: steady_const poll_result_def Status_of_def)
  from WaitReady_loop_timeout [of 20 20, OF _ this, of zeroed] show ?thesis
    by (simp add: WaitReady_default_def WaitReady_def vTaskDelay_def io0_def)
qed

text \<open>
  C2.  With the device busy at every poll and no bus error, \<open>WaitReady\<close> is to poll 20
  times and return \<open>0xFF\<close>.  On the code, with status \<open>0x08\<close> (conversion in
  progress) at every poll, \<open>WaitReady()\<close> sleeps 30 ticks, polls once and returns 0.
  The number of polls never exceeds the budget (\<open>WaitReady_polls_bounded\<close>).
\<close>

theorem WaitReady_busy_device_returns_0:
  "WaitReady_default (steady (0, [0x08])) zeroed io0 =
     (0, zeroed, \<lparr>count = 1, trace = [Delay 30, BusRead ADDR REG_STATUS 1]\<rparr>)"
proof -
  have "poll_result (steady (0, [0x08]) (count (vTaskDelay 30 io0) + 0)) = 0"
    by (simp add: steady_const poll_result_def Status_of_def)
  with WaitReady_loop_stop [of 0 20 "steady (0, [0x08])" "vTaskDelay 30 io0" zeroed] show ?thesis
    by (simp add: WaitReady_default_def WaitReady_def vTaskDelay_def io0_def polled_def
        steady_const zeroed_def)
qed

section \<open>The trigger and the raw-sample readers\<close>

lemma I2C_Read_ok:
  "bus (count w) = (0, d) \<Longrightarrow>
   I2C_Read bus addr reg len w =
     (0, take len (d @ replicate len 0),
      w\<lparr>count := Suc (count w), trace := trace w @ [BusRead addr reg len]\<rparr>)"
  by (simp add: I2C_Read_def)

lemma I2C_Read_fail:
  "fst (bus (count w)) \<noteq> 0 \<Longrightarrow>
   I2C_Read bus addr reg len w =
     (fst (bus (count w)), take len (snd (bus (count w))),
      w\<lparr>count := Suc (count w), trace := trace w @ [BusRead addr reg len]\<rparr>)"
  by (cases "bus (count w)") (simp add: I2C_Read_def)

lemma masks:
  "(0xFF :: s32) = mask 8"
  "(0xFF00 :: s32) = push_bit 8 (mask 8)"
  "(0xFF0000 :: s32) = push_bit 16 (mask 8)"
  by (simp_all add: mask_eq_exp_minus_1 push_bit_eq_mult)

lemma bit_store_byte:
  "bit (store_byte x i b) n \<longleftrightarrow>
     (if 8 * i \<le> n \<and> n < 8 * i + 8 then n < 32 \<and> bit b (n - 8 * i) else bit x n)"
  unfolding store_byte_def masks
  by (auto simp: bit_simps dest: bit_imp_le_length)

lemma stored3: "store_bytes 0 0 [b0, b1, b2] = ucast b0 OR push_bit 8 (ucast b1) OR push_bit 16 (ucast b2)"
  apply (rule bit_word_eqI)
  apply (simp add: bit_store_byte)
  apply (auto simp: bit_simps dest: bit_imp_le_length)
  done

lemma swap_shift_stored3:
  "swap_shift (ucast b0 OR push_bit 8 (ucast b1) OR push_bit 16 (ucast b2)) = drop_bit 4 (be24 b0 b1 b2)"
  unfolding swap_shift_def be24_def masks
  apply (rule bit_word_eqI)
  apply (auto simp: bit_simps dest: bit_imp_le_length)
  done


lemma be24_plus:
  "be24 b0 b1 b2 = ucast b0 * 65536 + ucast b1 * 256 + ucast b2"
proof -
  have "push_bit 8 (ucast b1 :: s32) AND ucast b2 = 0"
    by (rule bit_word_eqI) (auto simp: bit_simps dest: bit_imp_le_length)
  then have 1: "push_bit 8 (ucast b1 :: s32) OR ucast b2 = push_bit 8 (ucast b1) + ucast b2"
    by (rule disjunctive_add_eq_or [symmetric])
  have "push_bit 16 (ucast b0 :: s32) AND (push_bit 8 (ucast b1) OR ucast b2) = 0"
    by (rule bit_word_eqI) (auto simp: bit_simps dest: bit_imp_le_length)
  then have 2: "push_bit 16 (ucast b0 :: s32) OR (push_bit 8 (ucast b1) OR ucast b2) =
      push_bit 16 (ucast b0) + (push_bit 8 (ucast b1) OR ucast b2)"
    by (rule disjunctive_add_eq_or [symmetric])
  show ?thesis
    by (simp only: be24_def 2 [unfolded 1] 1) (simp add: push_bit_eq_mult)
qed

lemma unat_byte: "unat (b :: u8) \<le> 255"
  using unsigned_less [of b, where 'a = nat] by simp

lemma be24_unat: "unat (be24 b0 b1 b2) = 65536 * unat b0 + 256 * unat b1 + unat b2"
proof -
  have "65536 * unat b0 + 256 * unat b1 + unat b2 < 2 ^ 32"
    using unat_byte [of b0] unat_byte [of b1] unat_byte [of b2] by simp
  moreover have "be24 b0 b1 b2 = of_nat (65536 * unat b0 + 256 * unat b1 + unat b2)"
    by (simp add: be24_plus mult.commute)
  ultimately show ?thesis
    by (simp only: unat_of_nat) simp
qed

lemma be24_range: "unat (be24 b0 b1 b2) < 16777216"
  using unat_byte [of b0] unat_byte [of b1] unat_byte [of b2] by (simp add: be24_unat)

lemma sint_small:
  assumes "unat (w :: s32) < 2147483648"
  shows "sint w = int (unat w)"
proof -
  from assms have "int (unat w) < 2147483648"
    by linarith
  then have "uint w < 2147483648"
    by simp
  then have "uint w < 2 ^ 31"
    by simp
  moreover have "- (2 ^ 31) \<le> uint w"
    by (rule order_trans [of _ 0]) simp_all
  ultimately have "signed_take_bit 31 (uint w) = uint w"
    by (intro signed_take_bit_int_eq_self)
  then show ?thesis
    by (simp add: sint_uint)
qed

lemma decoded_sint:
  "sint (drop_bit 4 (be24 b0 b1 b2)) = int ((65536 * unat b0 + 256 * unat b1 + unat b2) div 16)"
proof -
  have u: "unat (drop_bit 4 (be24 b0 b1 b2)) = (65536 * unat b0 + 256 * unat b1 + unat b2) div 16"
    by (simp add: drop_bit_eq_div unat_div be24_unat)
  have "unat (drop_bit 4 (be24 b0 b1 b2)) < 2147483648"
    using be24_range [of b0 b1 b2] by (simp add: drop_bit_eq_div unat_div)
  then show ?thesis
    by (simp only: sint_small u)
qed

lemma ReadRawTemp_ok:
  assumes "bus (count w) = (0, [b0, b1, b2])"
  shows "ReadRawTemp bus s w =
     (0, s\<lparr>RawTemp := drop_bit 4 (be24 b0 b1 b2), Error := 0\<rparr>,
      w\<lparr>count := Suc (count w), trace := trace w @ [BusRead ADDR REG_TEMP 3]\<rparr>)"
proof -
  have "take 3 ([b0, b1, b2] @ replicate 3 0) = [b0, b1, b2]"
    by simp
  then show ?thesis
    using assms by (simp add: ReadRawTemp_def Let_def I2C_Read_ok stored3 swap_shift_stored3 del: store_bytes.simps)
qed

lemma ReadRawPress_ok:
  assumes "bus (count w) = (0, [b0, b1, b2])"
  shows "ReadRawPress bus s w =
     (0, s\<lparr>RawPress := drop_bit 4 (be24 b0 b1 b2), Error := 0\<rparr>,
      w\<lparr>count := Suc (count w), trace := trace w @ [BusRead ADDR REG_PRESS 3]\<rparr>)"
proof -
  have "take 3 ([b0, b1, b2] @ replicate 3 0) = [b0, b1, b2]"
    by simp
  then show ?thesis
    using assms by (simp add: ReadRawPress_def Let_def I2C_Read_ok stored3 swap_shift_stored3 del: store_bytes.simps)
qed

lemma ReadRawTemp_fail:
  assumes "fst (bus (count w)) \<noteq> 0"
  shows "ReadRawTemp bus s w =
     (fst (bus (count w)),
      s\<lparr>RawTemp := store_bytes 0 0 (take 3 (snd (bus (count w)))),
        Error := fst (bus (count w))\<rparr>,
      w\<lparr>count := Suc (count w), trace := trace w @ [BusRead ADDR REG_TEMP 3]\<rparr>)"
  using assms by (simp add: ReadRawTemp_def Let_def I2C_Read_fail del: store_bytes.simps)

lemma ReadRawPress_fail:
  assumes "fst (bus (count w)) \<noteq> 0"
  shows "ReadRawPress bus s w =
     (fst (bus (count w)),
      s\<lparr>RawPress := store_bytes 0 0 (take 3 (snd (bus (count w)))),
        Error := fst (bus (count w))\<rparr>,
      w\<lparr>count := Suc (count w), trace := trace w @ [BusRead ADDR REG_PRESS 3]\<rparr>)"
  using assms by (simp add: ReadRawPress_def Let_def I2C_Read_fail del: store_bytes.simps)

lemma Trigger_first_write_fails:
  "fst (bus (count w)) \<noteq> 0 \<Longrightarrow>
   Trigger bus s w =
     (fst (bus (count w)), s\<lparr>Error := fst (bus (count w))\<rparr>,
      w\<lparr>count := Suc (count w), trace := trace w @ [BusWrite ADDR REG_CONFIG 0x00]\<rparr>)"
  by (simp add: Trigger_def I2C_Write_def Let_def)

lemma Trigger_second_write:
  "fst (bus (count w)) = 0 \<Longrightarrow>
   Trigger bus s w =
     (fst (bus (Suc (count w))), s\<lparr>Error := fst (bus (Suc (count w)))\<rparr>,
      w\<lparr>count := Suc (Suc (count w)),
        trace := trace w @ [BusWrite ADDR REG_CONFIG 0x00, BusWrite ADDR REG_CTRL 0x55]\<rparr>)"
  by (simp add: Trigger_def I2C_Write_def Let_def)

section \<open>Bus errors\<close>

text \<open>
  C3, as the code has it.  For each trigger write, each raw-sample read and the status
  read of \<open>ReadBusy\<close>, every non-zero error code makes the operation stop at once and
  return the code; for a status poll inside \<open>WaitReady\<close>, every error code greater
  than 1 makes \<open>WaitReady\<close> stop at once and return the code.  In each case the bus
  state shows the failed transaction as the last event: nothing follows it.
\<close>

theorem bus_error_stops_operation:
  "(fst (bus (count w)) \<noteq> 0 \<longrightarrow>
      Trigger bus s w =
        (fst (bus (count w)), s\<lparr>Error := fst (bus (count w))\<rparr>,
         w\<lparr>count := Suc (count w), trace := trace w @ [BusWrite ADDR REG_CONFIG 0x00]\<rparr>) \<and>
      ReadBusy bus s w =
        (fst (bus (count w)), s\<lparr>Error := fst (bus (count w))\<rparr>,
         w\<lparr>count := Suc (count w), trace := trace w @ [BusRead ADDR REG_STATUS 1]\<rparr>) \<and>
      fst (ReadRawPress bus s w) = fst (bus (count w)) \<and>
      snd (snd (ReadRawPress bus s w)) =
        w\<lparr>count := Suc (count w), trace := trace w @ [BusRead ADDR REG_PRESS 3]\<rparr> \<and>
      fst (ReadRawTemp bus s w) = fst (bus (count w)) \<and>
      snd (snd (ReadRawTemp bus s w)) =
        w\<lparr>count := Suc (count w), trace := trace w @ [BusRead ADDR REG_TEMP 3]\<rparr>) \<and>
   (fst (bus (count w)) = 0 \<and> fst (bus (Suc (count w))) \<noteq> 0 \<longrightarrow>
      Trigger bus s w =
        (fst (bus (Suc (count w))), s\<lparr>Error := fst (bus (Suc (count w)))\<rparr>,
         w\<lparr>count := Suc (Suc (count w)),
           trace := trace w @ [BusWrite ADDR REG_CONFIG 0x00, BusWrite ADDR REG_CTRL 0x55]\<rparr>)) \<and>
   (k < unat Timeout \<and> (\<forall>j<k. poll_result (bus (count w + j)) = 1) \<and>
    1 < fst (bus (count w + k)) \<longrightarrow>
      WaitReady bus Timeout Wait s w =
        (fst (bus (count w + k)), s\<lparr>Error := fst (bus (count w + k))\<rparr>,
         w\<lparr>count := Suc (count w + k),
           trace := trace w @ Delay (unat Wait) # polled k @ [BusRead ADDR REG_STATUS 1]\<rparr>))"
proof (intro conjI impI)
  assume h: "fst (bus (count w)) \<noteq> 0"
  then show "Trigger bus s w =
        (fst (bus (count w)), s\<lparr>Error := fst (bus (count w))\<rparr>,
         w\<lparr>count := Suc (count w), trace := trace w @ [BusWrite ADDR REG_CONFIG 0x00]\<rparr>)"
    by (rule Trigger_first_write_fails)
  from h show "ReadBusy bus s w =
        (fst (bus (count w)), s\<lparr>Error := fst (bus (count w))\<rparr>,
         w\<lparr>count := Suc (count w), trace := trace w @ [BusRead ADDR REG_STATUS 1]\<rparr>)"
    by (simp add: ReadBusy_eq poll_result_def)
  from h show "fst (ReadRawPress bus s w) = fst (bus (count w))"
    and "snd (snd (ReadRawPress bus s w)) =
        w\<lparr>count := Suc (count w), trace := trace w @ [BusRead ADDR REG_PRESS 3]\<rparr>"
    and "fst (ReadRawTemp bus s w) = fst (bus (count w))"
    and "snd (snd (ReadRawTemp bus s w)) =
        w\<lparr>count := Suc (count w), trace := trace w @ [BusRead ADDR REG_TEMP 3]\<rparr>"
    by (simp_all add: ReadRawPress_fail ReadRawTemp_fail)
next
  assume "fst (bus (count w)) = 0 \<and> fst (bus (Suc (count w))) \<noteq> 0"
  then show "Trigger bus s w =
        (fst (bus (Suc (count w))), s\<lparr>Error := fst (bus (Suc (count w)))\<rparr>,
         w\<lparr>count := Suc (Suc (count w)),
           trace := trace w @ [BusWrite ADDR REG_CONFIG 0x00, BusWrite ADDR REG_CTRL 0x55]\<rparr>)"
    by (simp add: Trigger_second_write)
next
  assume a: "k < unat Timeout \<and> (\<forall>j<k. poll_result (bus (count w + j)) = 1) \<and>
    1 < fst (bus (count w + k))"
  let ?w = "vTaskDelay (unat Wait) w"
  have c: "count ?w = count w"
    by (simp add: vTaskDelay_def)
  from a have p: "poll_result (bus (count w + k)) = fst (bus (count w + k))"
    by (simp add: poll_result_error)
  with a have "poll_result (bus (count w + k)) \<noteq> 1"
    by auto
  with WaitReady_loop_stop [of k Timeout bus ?w s] a
  show "WaitReady bus Timeout Wait s w =
        (fst (bus (count w + k)), s\<lparr>Error := fst (bus (count w + k))\<rparr>,
         w\<lparr>count := Suc (count w + k),
           trace := trace w @ Delay (unat Wait) # polled k @ [BusRead ADDR REG_STATUS 1]\<rparr>)"
    by (simp add: WaitReady_def c p) (simp add: vTaskDelay_def)
qed

theorem bus_error_stops_operation_witness:
  "Trigger (steady (7, [])) zeroed io0 =
     (7, zeroed\<lparr>Error := 7\<rparr>, \<lparr>count = 1, trace = [BusWrite ADDR REG_CONFIG 0x00]\<rparr>) \<and>
   fst (ReadRawPress (steady (7, [])) zeroed io0) = 7 \<and>
   fst (ReadRawTemp (steady (7, [])) zeroed io0) = 7 \<and>
   Trigger (fail_from 1 7 (0, [])) zeroed io0 =
     (7, zeroed\<lparr>Error := 7\<rparr>,
      \<lparr>count = 2, trace = [BusWrite ADDR REG_CONFIG 0x00, BusWrite ADDR REG_CTRL 0x55]\<rparr>) \<and>
   WaitReady (fail_from 2 7 (0, [0x00])) 20 30 zeroed io0 =
     (7, zeroed\<lparr>Error := 7\<rparr>,
      \<lparr>count = 3, trace = Delay 30 # polled 2 @ [BusRead ADDR REG_STATUS 1]\<rparr>)"
proof -
  have a: "fst (steady (7, []) (count io0)) \<noteq> 0"
    by (simp add: steady_const)
  have b: "fst (fail_from 1 7 (0, []) (count io0)) = 0 \<and>
      fst (fail_from 1 7 (0, []) (Suc (count io0))) \<noteq> 0"
    by (simp add: fail_from_def io0_def)
  have c: "2 < unat (20 :: u8) \<and>
      (\<forall>j<2. poll_result (fail_from 2 7 (0, [0x00]) (count io0 + j)) = 1) \<and>
      1 < fst (fail_from 2 7 (0, [0x00]) (count io0 + 2))"
    by (simp add: fail_from_def io0_def poll_result_def Status_of_def)
  from bus_error_stops_operation [where bus = "steady (7, [])" and w = io0 and s = zeroed] a
    bus_error_stops_operation [where bus = "fail_from 1 7 (0, [])" and w = io0 and s = zeroed] b
    bus_error_stops_operation [where bus = "fail_from 2 7 (0, [0x00])" and w = io0 and s = zeroed and k = 2
        and Timeout = 20 and Wait = 30] c
  show ?thesis
    by (simp add: io0_def steady_const fail_from_def)
qed

text \<open>
  C3 as stated fails at the error code 1, which \<open>WaitReady\<close> cannot tell from the
  value 1 that \<open>ReadBusy\<close> returns for a status: with code 1 on every status read,
  \<open>WaitReady()\<close> sleeps and polls again, 20 times in all, and returns \<open>0xFF\<close>.
\<close>

theorem WaitReady_error_code_1_not_returned:
  "fst (steady (1, []) (count io0)) = 1 \<and>
   fst (WaitReady_default (steady (1, [])) zeroed io0) = 0xFF \<and>
   snd (snd (WaitReady_default (steady (1, [])) zeroed io0)) =
     \<lparr>count = 20, trace = Delay 30 # polled 20\<rparr>"
proof -
  have "\<forall>k<20. poll_result (steady (1, []) (count (vTaskDelay 30 io0) + k)) = 1"
    by (simp add: steady_const poll_result_def)
  from WaitReady_loop_timeout [of 20 20, OF _ this, of zeroed]
  have "fst (WaitReady_default (steady (1, [])) zeroed io0) = 0xFF \<and>
      snd (snd (WaitReady_default (steady (1, [])) zeroed io0)) =
        \<lparr>count = 20, trace = Delay 30 # polled 20\<rparr>"
    by (simp add: WaitReady_default_def WaitReady_def vTaskDelay_def io0_def)
  moreover have "fst (steady (1, []) (count io0)) = 1"
    by (simp add: steady_def)
  ultimately show ?thesis
    by (simp only: simp_thms)
qed

section \<open>Decoding the raw samples\<close>

text \<open>
  C6.  When the read succeeds with the burst \<open>[b0, b1, b2]\<close>, \<open>ReadRawTemp\<close> and
  \<open>ReadRawPress\<close> return 0 and store \<open>((b0<<16) | (b1<<8) | b2) >> 4\<close>; the burst
  \<open>[0x12, 0x34, 0x56]\<close> gives \<open>0x12345\<close>.
\<close>

theorem ReadRaw_decodes_big_endian:
  "bus (count w) = (0, [b0, b1, b2]) \<Longrightarrow>
   fst (ReadRawTemp bus s w) = 0 \<and>
   RawTemp (fst (snd (ReadRawTemp bus s w))) = drop_bit 4 (be24 b0 b1 b2) \<and>
   fst (ReadRawPress bus s w) = 0 \<and>
   RawPress (fst (snd (ReadRawPress bus s w))) = drop_bit 4 (be24 b0 b1 b2)"
  by (simp add: ReadRawTemp_ok ReadRawPress_ok)

theorem ReadRaw_decodes_big_endian_witness:
  "be24 0x12 0x34 0x56 = 0x123456 \<and>
   fst (ReadRawTemp (steady (0, [0x12, 0x34, 0x56])) zeroed io0) = 0 \<and>
   RawTemp (fst (snd (ReadRawTemp (steady (0, [0x12, 0x34, 0x56])) zeroed io0))) = 0x12345 \<and>
   fst (ReadRawPress (steady (0, [0x12, 0x34, 0x56])) zeroed io0) = 0 \<and>
   RawPress (fst (snd (ReadRawPress (steady (0, [0x12, 0x34, 0x56])) zeroed io0))) = 0x12345"
proof -
  have v: "be24 0x12 0x34 0x56 = 0x123456"
    by (simp add: be24_def)
  have d: "drop_bit 4 (0x123456 :: s32) = 0x12345"
    by (simp add: drop_bit_eq_div)
  have h: "steady (0, [0x12, 0x34, 0x56]) (count io0) = (0, [0x12, 0x34, 0x56])"
    by (rule steady_const)
  from ReadRaw_decodes_big_endian [where bus = "steady (0, [0x12, 0x34, 0x56])" and w = io0 and s = zeroed, OF h]
  show ?thesis
    by (simp only: v d simp_thms)
qed

text \<open>
  C7, as the code has it.  The raw samples are not sign-extended: the 24-bit value of the
  burst is zero-extended into the 32-bit field and shifted right by 4.  For every burst,
  also one whose 24-bit value is \<open>0x800000\<close> or more, the decoded sample read as a
  signed integer is \<open>(65536 b0 + 256 b1 + b2) div 16\<close>, between 0 and \<open>0xFFFFF\<close>,
  never negative.
\<close>

theorem ReadRaw_zero_extended:
  "bus (count w) = (0, [b0, b1, b2]) \<Longrightarrow>
   sint (RawTemp (fst (snd (ReadRawTemp bus s w)))) =
     (65536 * uint b0 + 256 * uint b1 + uint b2) div 16 \<and>
   sint (RawPress (fst (snd (ReadRawPress bus s w)))) =
     (65536 * uint b0 + 256 * uint b1 + uint b2) div 16 \<and>
   0 \<le> (65536 * uint b0 + 256 * uint b1 + uint b2) div 16 \<and>
   (65536 * uint b0 + 256 * uint b1 + uint b2) div 16 < 1048576"
proof -
  assume h: "bus (count w) = (0, [b0, b1, b2])"
  have e: "int ((65536 * unat b0 + 256 * unat b1 + unat b2) div 16) =
      (65536 * uint b0 + 256 * uint b1 + uint b2) div 16"
    by (simp add: zdiv_int)
  have "(65536 * unat b0 + 256 * unat b1 + unat b2) div 16 < 1048576"
    using unat_byte [of b0] unat_byte [of b1] unat_byte [of b2] by simp
  then have "int ((65536 * unat b0 + 256 * unat b1 + unat b2) div 16) < 1048576"
    by linarith
  moreover have "0 \<le> int ((65536 * unat b0 + 256 * unat b1 + unat b2) div 16)"
    by simp
  ultimately show ?thesis
    unfolding e using h by (simp add: ReadRawTemp_ok ReadRawPress_ok decoded_sint e)
qed

theorem ReadRaw_zero_extended_witness:
  "sint (RawTemp (fst (snd (ReadRawTemp (steady (0, [0x80, 0x00, 0x00])) zeroed io0)))) = 524288 \<and>
   sint (RawPress (fst (snd (ReadRawPress (steady (0, [0xFF, 0xFF, 0xFF])) zeroed io0)))) = 1048575"
proof -
  have h: "steady (0, [0x80, 0x00, 0x00]) (count io0) = (0, [0x80, 0x00, 0x00])"
    by (rule steady_const)
  have g: "steady (0, [0xFF, 0xFF, 0xFF]) (count io0) = (0, [0xFF, 0xFF, 0xFF])"
    by (rule steady_const)
  from ReadRaw_zero_extended [where bus = "steady (0, [0x80, 0x00, 0x00])" and w = io0 and s = zeroed, OF h]
    ReadRaw_zero_extended [where bus = "steady (0, [0xFF, 0xFF, 0xFF])" and w = io0 and s = zeroed, OF g]
  show ?thesis
    by simp
qed

text \<open>
  C7 as stated fails at the burst \<open>[0x80, 0x00, 0x00]\<close>: its 24-bit value has the top
  bit set and the decoded sample is \<open>0x80000\<close>, not a negative number.
\<close>

theorem ReadRaw_top_bit_set_not_negative:
  "0x800000 \<le> unat (be24 0x80 0x00 0x00) \<and>
   \<not> sint (RawTemp (fst (snd (ReadRawTemp (steady (0, [0x80, 0x00, 0x00])) zeroed io0)))) < 0"
proof -
  have h: "steady (0, [0x80, 0x00, 0x00]) (count io0) = (0, [0x80, 0x00, 0x00])"
    by (rule steady_const)
  have "sint (drop_bit 4 (be24 0x80 0x00 0x00)) = 524288"
    by (simp add: decoded_sint)
  then show ?thesis
    using h by (simp add: ReadRawTemp_ok be24_unat)
qed

text \<open>
  C10, as the code has it.  Both readers zero the raw-sample field before the bus read.
  When the read fails they return the bus error code, and the sample stored before is
  not kept: the field holds the zeroed buffer with the bytes, if any, that the failed
  read stored in it, neither swapped nor shifted.  It is 0 when the failed read stored
  nothing.
\<close>

theorem ReadRaw_error_drops_previous_sample:
  "fst (bus (count w)) \<noteq> 0 \<Longrightarrow>
   fst (ReadRawTemp bus s w) = fst (bus (count w)) \<and>
   RawTemp (fst (snd (ReadRawTemp bus s w))) = store_bytes 0 0 (take 3 (snd (bus (count w)))) \<and>
   fst (ReadRawPress bus s w) = fst (bus (count w)) \<and>
   RawPress (fst (snd (ReadRawPress bus s w))) = store_bytes 0 0 (take 3 (snd (bus (count w)))) \<and>
   (snd (bus (count w)) = [] \<longrightarrow>
      RawTemp (fst (snd (ReadRawTemp bus s w))) = 0 \<and>
      RawPress (fst (snd (ReadRawPress bus s w))) = 0)"
  by (simp add: ReadRawTemp_fail ReadRawPress_fail del: store_bytes.simps) simp

theorem ReadRaw_error_drops_previous_sample_witness:
  "RawTemp (zeroed\<lparr>RawTemp := 0x12345, RawPress := 0x54321\<rparr>) \<noteq> 0 \<and>
   fst (ReadRawTemp (steady (5, [])) (zeroed\<lparr>RawTemp := 0x12345, RawPress := 0x54321\<rparr>) io0) = 5 \<and>
   RawTemp (fst (snd (ReadRawTemp (steady (5, [])) (zeroed\<lparr>RawTemp := 0x12345, RawPress := 0x54321\<rparr>) io0))) = 0 \<and>
   fst (ReadRawPress (steady (5, [])) (zeroed\<lparr>RawTemp := 0x12345, RawPress := 0x54321\<rparr>) io0) = 5 \<and>
   RawPress (fst (snd (ReadRawPress (steady (5, [])) (zeroed\<lparr>RawTemp := 0x12345, RawPress := 0x54321\<rparr>) io0))) = 0"
proof -
  have h: "fst (steady (5, []) (count io0)) \<noteq> 0"
    by (simp add: steady_const)
  have e: "snd (steady (5, []) (count io0)) = []"
    by (simp add: steady_const)
  from ReadRaw_error_drops_previous_sample [where bus = "steady (5, [])" and w = io0
      and s = "zeroed\<lparr>RawTemp := 0x12345, RawPress := 0x54321\<rparr>", OF h] e
  show ?thesis
    by (simp add: steady_const)
qed

text \<open>
  C10 as stated fails when the failed read has stored bytes before it reports the
  error: the buffer is the field itself.  With the bytes \<open>0xAA, 0xBB, 0xCC\<close> stored and
  the error code 5 returned, \<open>ReadRawTemp\<close> returns 5 and RawTemp is \<open>0x00CCBBAA\<close>,
  not 0.
\<close>

theorem ReadRaw_error_sample_not_zero:
  "fst (steady (5, [0xAA, 0xBB, 0xCC]) (count io0)) \<noteq> 0 \<and>
   fst (ReadRawTemp (steady (5, [0xAA, 0xBB, 0xCC])) zeroed io0) = 5 \<and>
   RawTemp (fst (snd (ReadRawTemp (steady (5, [0xAA, 0xBB, 0xCC])) zeroed io0))) = 0xCCBBAA \<and>
   (0xCCBBAA :: s32) \<noteq> 0"
proof -
  have h: "fst (steady (5, [0xAA, 0xBB, 0xCC]) (count io0)) \<noteq> 0"
    by (simp add: steady_const)
  have v: "store_bytes 0 0 [0xAA, 0xBB, 0xCC] = 0xCCBBAA"
    by code_simp
  from ReadRawTemp_fail [where bus = "steady (5, [0xAA, 0xBB, 0xCC])" and w = io0 and s = zeroed, OF h]
  have "ReadRawTemp (steady (5, [0xAA, 0xBB, 0xCC])) zeroed io0 =
      (5, zeroed\<lparr>RawTemp := 0xCCBBAA, Error := 5\<rparr>,
       io0\<lparr>count := Suc (count io0), trace := trace io0 @ [BusRead ADDR REG_TEMP 3]\<rparr>)"
    by (simp add: steady_const v del: store_bytes.simps)
  with h show ?thesis
    by simp
qed

end
